theory Spec2Isabelle
  imports Main "HOL-Library.Word"
begin

unbundle bit_operations_syntax

section \<open>dockerpc: the stream demultiplexer of \<^verbatim>\<open>dockerpc.go\<close>\<close>

subsection \<open>Bytes, errors and the underlying connection\<close>

type_synonym byte = "8 word"
type_synonym uint32 = "32 word"

text \<open>
  Go errors are values. \<open>Read\<close> creates two of its own
  (\<^verbatim>\<open>errors.New("Expected 8 byte header from Docker")\<close> and
  \<^verbatim>\<open>errors.New(fmt.Sprintf("Unsupported pipe: %d ", pipeName))\<close>); every other error
  comes from a collaborator (the connection, the dialer, the RPC layer) and is passed on
  unchanged, so it is kept as an opaque message.
\<close>

datatype error =
    Expected8ByteHeader
  | UnsupportedPipe byte
  | External string

text \<open>The spec's name for the two errors that \<open>Read\<close> creates itself.\<close>

fun ProtocolFraming :: "error \<Rightarrow> bool" where
  "ProtocolFraming Expected8ByteHeader = True"
| "ProtocolFraming (UnsupportedPipe t) = True"
| "ProtocolFraming (External m) = False"

text \<open>
  \<^verbatim>\<open>net.Conn\<close> is an interface; all that \<open>Read\<close> sees of it is what each call of
  \<^verbatim>\<open>conn.Read(buf)\<close> returns: a count of bytes written to the front of \<open>buf\<close> and an
  error. The connection is therefore a script of the raw reads still to come, each the
  bytes that are available at that moment together with the message of the error
  reported with them (\<open>None\<close> is \<^verbatim>\<open>nil\<close>). A read into a buffer smaller than
  what is available takes the front of it and leaves the rest for the next read; a
  read into an empty buffer returns \<^verbatim>\<open>0, nil\<close> at once; past the end of the script
  the peer has closed and the read reports \<^verbatim>\<open>io.EOF\<close>.
\<close>

type_synonym raw_read = "byte list \<times> string option"
type_synonym Conn = "raw_read list"

definition EOF :: string where
  "EOF = ''EOF''"

definition conn_Read :: "Conn \<Rightarrow> nat \<Rightarrow> raw_read \<times> Conn" where
  "conn_Read c n =
     (if n = 0 then (([], None), c)
      else case c of
        [] \<Rightarrow> (([], Some EOF), [])
      | (d, e) # rest \<Rightarrow>
          if length d \<le> n then ((d, e), rest)
          else ((take n d, None), (drop n d, e) # rest))"

subsection \<open>\<^verbatim>\<open>dockerPipes\<close> and its \<^verbatim>\<open>Read\<close>\<close>

definition STDIN :: byte where "STDIN = 0"
definition STDOUT :: byte where "STDOUT = 1"
definition STDERR :: byte where "STDERR = 2"

text \<open>
  \<^verbatim>\<open>stdErrBuf\<close> is a pointer to the client's buffer; the field holds the content of
  the buffer it points to.
\<close>

record dockerPipes =
  conn :: Conn
  stdErrBuf :: "byte list"
  bytesRemaining :: uint32
  pipeName :: byte

text \<open>
  \<^verbatim>\<open>binary.Read(sizeReader, binary.BigEndian, &size)\<close> on a reader over \<^verbatim>\<open>p[4:]\<close>:
  the first four bytes of the slice, most significant first.
\<close>

definition BigEndian_uint32 :: "byte list \<Rightarrow> uint32" where
  "BigEndian_uint32 bs =
     push_bit 24 (ucast (bs ! 0)) OR push_bit 16 (ucast (bs ! 1)) OR
     push_bit 8 (ucast (bs ! 2)) OR ucast (bs ! 3)"

text \<open>
  Lines 220--236: when nothing of a payload is pending, one raw read into a fresh
  buffer \<open>p\<close> of 1024 zero bytes. An error of the connection is returned as it is; any
  count other than 8 is the header error; otherwise byte 0 becomes the pending tag and
  bytes 4--7 the remaining count. The result is the error, or the pipe the payload read
  goes on with. The raw read has consumed from the connection in every case.
\<close>

definition read_header :: "dockerPipes \<Rightarrow> error \<times> dockerPipes + dockerPipes" where
  "read_header pipe =
     (if bytesRemaining pipe = 0 then
        (case conn_Read (conn pipe) 1024 of
           ((d, Some err), conn') \<Rightarrow> Inl (External err, pipe\<lparr>conn := conn'\<rparr>)
         | ((d, None), conn') \<Rightarrow>
             (let p = d @ replicate (1024 - length d) (0 :: byte);
                  c = length d
              in if c \<noteq> 8 then Inl (Expected8ByteHeader, pipe\<lparr>conn := conn'\<rparr>)
                 else Inr (pipe\<lparr>conn := conn',
                                 pipeName := p ! 0,
                                 bytesRemaining := BigEndian_uint32 (drop 4 p)\<rparr>)))
      else Inr pipe)"

text \<open>
  Lines 248--254: the caller's buffer length as a \<^verbatim>\<open>uint32\<close> against the remaining
  count.
\<close>

definition update_remaining :: "nat \<Rightarrow> uint32 \<Rightarrow> uint32" where
  "update_remaining len_b remaining =
     (let bufSize = (of_nat len_b :: uint32)
      in if bufSize < remaining then remaining - bufSize else 0)"

text \<open>
  Lines 238--267: one raw read into the caller's buffer \<open>b\<close>, the update of the
  remaining count, and the dispatch on the pending tag. The result is the pair that Go
  returns (\<open>Inl e\<close> is \<^verbatim>\<open>0, e\<close>; \<open>Inr n\<close> is \<^verbatim>\<open>n, nil\<close>), the caller's buffer after
  the call, and the pipe after the call.
\<close>

definition read_payload ::
  "dockerPipes \<Rightarrow> byte list \<Rightarrow> (error + nat) \<times> byte list \<times> dockerPipes" where
  "read_payload pipe b =
     (let pipeName' = pipeName pipe in
      case conn_Read (conn pipe) (length b) of
        ((d, Some err), conn') \<Rightarrow>
          (Inl (External err), d @ drop (length d) b, pipe\<lparr>conn := conn'\<rparr>)
      | ((d, None), conn') \<Rightarrow>
          (let c = length d;
               b' = d @ drop (length d) b;
               pipe' = pipe\<lparr>conn := conn',
                            bytesRemaining := update_remaining (length b) (bytesRemaining pipe)\<rparr>
           in if pipeName' = STDIN then (Inr 0, b', pipe')
              else if pipeName' = STDOUT then (Inr c, b', pipe')
              else if pipeName' = STDERR
                then (Inr 0, b', pipe'\<lparr>stdErrBuf := stdErrBuf pipe' @ take c b'\<rparr>)
              else (Inl (UnsupportedPipe pipeName'), b', pipe')))"

text \<open>\<^verbatim>\<open>func (pipe *dockerPipes) Read(b []byte) (int, error)\<close>, lines 216--268.\<close>

definition Read ::
  "dockerPipes \<Rightarrow> byte list \<Rightarrow> (error + nat) \<times> byte list \<times> dockerPipes" where
  "Read pipe b =
     (case read_header pipe of
        Inl (err, pipe') \<Rightarrow> (Inl err, b, pipe')
      | Inr pipe' \<Rightarrow> read_payload pipe' b)"

subsection \<open>The peer's frames and the caller's reads\<close>

text \<open>
  The other end of the attach stream, as the Docker API document that the source cites
  describes it: a frame is 8 header bytes (the tag, three zero bytes, the payload length
  as a big-endian 32-bit number) followed by the payload.
\<close>

type_synonym frame = "byte \<times> byte list"

definition frame_header :: "byte \<Rightarrow> uint32 \<Rightarrow> byte list" where
  "frame_header t n =
     [t, 0, 0, 0, ucast (drop_bit 24 n), ucast (drop_bit 16 n), ucast (drop_bit 8 n), ucast n]"

definition encode :: "frame \<Rightarrow> byte list" where
  "encode f = frame_header (fst f) (of_nat (length (snd f))) @ snd f"

text \<open>
  Two ways in which a frame can arrive. \<open>arrival\<close>: the header is the whole of one raw
  read and the payload, when there is one, is available in full behind it.
  \<open>coalesced\<close>: header and payload are available together, as one raw read.
\<close>

definition arrival :: "frame \<Rightarrow> Conn" where
  "arrival f =
     (frame_header (fst f) (of_nat (length (snd f))), None) #
     (if snd f = [] then [] else [(snd f, None)])"

definition coalesced :: "frame \<Rightarrow> Conn" where
  "coalesced f = [(encode f, None)]"

definition wire :: "frame list \<Rightarrow> Conn" where
  "wire fs = concat (map arrival fs)"

text \<open>
  A frame of the protocol: its tag is one of the three channels and its payload length
  fits the 32-bit length field.
\<close>

definition valid_frame :: "frame \<Rightarrow> bool" where
  "valid_frame f =
     ((fst f = STDIN \<or> fst f = STDOUT \<or> fst f = STDERR) \<and> length (snd f) < 2 ^ 32)"

definition outputs :: "frame list \<Rightarrow> byte list" where
  "outputs fs = concat (map snd (filter (\<lambda>f. fst f = STDOUT) fs))"

definition errors :: "frame list \<Rightarrow> byte list" where
  "errors fs = concat (map snd (filter (\<lambda>f. fst f = STDERR) fs))"

text \<open>
  The caller of \<open>Read\<close> (the JSON decoder of the RPC codec): \<open>k\<close> calls in a row, each
  with a buffer of \<open>cap\<close> bytes, stopping at the first error. The result is that error
  if there was one, the bytes the calls produced (\<^verbatim>\<open>b[0:n]\<close> of each), and the pipe at
  the end.
\<close>

fun read_loop :: "nat \<Rightarrow> nat \<Rightarrow> dockerPipes \<Rightarrow> error option \<times> byte list \<times> dockerPipes" where
  "read_loop cap 0 pipe = (None, [], pipe)"
| "read_loop cap (Suc k) pipe =
     (case Read pipe (replicate cap 0) of
        (Inl err, b', pipe') \<Rightarrow> (Some err, [], pipe')
      | (Inr n, b', pipe') \<Rightarrow>
          (case read_loop cap k pipe' of
             (r, out, pipe'') \<Rightarrow> (r, take n b' @ out, pipe'')))"

text \<open>The number of calls that take a payload of \<open>n > 0\<close> bytes with buffers of \<open>cap\<close>.\<close>

definition reads_for :: "nat \<Rightarrow> nat \<Rightarrow> nat" where
  "reads_for cap n = Suc ((n - 1) div cap)"

definition reads_needed :: "nat \<Rightarrow> frame list \<Rightarrow> nat" where
  "reads_needed cap fs = sum_list (map (\<lambda>f. reads_for cap (length (snd f))) fs)"

text \<open>
  The frames and tags that the stream theorem below covers: a tag of one of the three
  channels, and a valid frame with a payload that is not empty.
\<close>

definition channel :: "byte \<Rightarrow> bool" where
  "channel t = (t = STDIN \<or> t = STDOUT \<or> t = STDERR)"

definition good_frame :: "frame \<Rightarrow> bool" where
  "good_frame f = (valid_frame f \<and> snd f \<noteq> [])"

subsection \<open>The client and its collaborators\<close>

text \<open>
  What the code uses of \<^verbatim>\<open>*docker.Client\<close>: whether its \<^verbatim>\<open>TLSConfig\<close> is set.
\<close>

record docker_Client =
  TLSConfig :: bool

record AttachToContainerOptions =
  Container :: string
  Stdout :: bool
  Stdin :: bool
  Stderr :: bool
  Stream :: bool

record CreateContainerOptions =
  Name :: string
  Image :: string
  OpenStdin :: bool

record Response =
  StatusCode :: nat

text \<open>
  The \<^verbatim>\<open>Client\<close> struct. The fields \<^verbatim>\<open>output\<close>, \<^verbatim>\<open>DockerHostConfig\<close> and
  \<^verbatim>\<open>DockerConfig\<close> are never read or written by the code and are left out. A pointer
  or interface field is an \<open>option\<close>, \<open>None\<close> for \<^verbatim>\<open>nil\<close>. The RPC handle is
  \<^verbatim>\<open>rpc.NewClientWithCodec(jsonrpc.NewClientCodec(pipes))\<close>: what the model keeps of it
  is the \<open>dockerPipes\<close> it reads from.
\<close>

record Client =
  ID :: string
  name :: string
  dockerImage :: string
  stdErrBuf :: "byte list"
  endpoint :: string
  dockerClient :: "docker_Client option"
  rpcClient :: "dockerPipes option"
  clientConn :: "Conn option"

text \<open>
  The collaborators outside the repository (the Docker client library, the Go standard
  library, the RPC layer), each as the result it gives for the arguments the code passes.
  \<open>queryString\<close> is a function of this repository that is not among its source files;
  it only builds the query of the attach URI.
\<close>

record world =
  os_Getenv :: "string \<Rightarrow> string"
  docker_NewTLSClient :: "string \<Rightarrow> string \<Rightarrow> string \<Rightarrow> string \<Rightarrow> error + docker_Client"
  docker_NewClient :: "string \<Rightarrow> error + docker_Client"
  docker_CreateContainer :: "CreateContainerOptions \<Rightarrow> error + string"
  docker_StartContainer :: "string \<Rightarrow> error option"
  docker_RemoveContainer :: "string \<Rightarrow> bool \<Rightarrow> error option"
  queryString :: "AttachToContainerOptions \<Rightarrow> string"
  url_Parse :: "string \<Rightarrow> error + string"
  tls_Dial :: "string \<Rightarrow> error + Conn"
  net_Dial :: "string \<Rightarrow> error + Conn"
  http_NewRequest :: "string \<Rightarrow> string \<Rightarrow> error option"
  clientconn_Do :: "Conn \<Rightarrow> string \<Rightarrow> Response option \<times> error option"
  clientconn_Hijack :: "Conn \<Rightarrow> Conn"
  rpc_Close :: "dockerPipes \<Rightarrow> error option"
  rpc_Call_result :: "string \<Rightarrow> error option"

text \<open>
  How a method ends: it returns its \<^verbatim>\<open>error\<close> (\<open>None\<close> is \<^verbatim>\<open>nil\<close>), or it panics on
  a nil pointer. The calls that \<open>Close\<close> makes on its collaborators are logged in order.
\<close>

datatype outcome = Return "error option" | Panic

datatype effect =
    Call_RemoveContainer string bool
  | Call_rpc_Close

definition NewClient :: "string \<Rightarrow> string \<Rightarrow> string \<Rightarrow> Client" where
  "NewClient name' dockerImage' endpoint' =
     \<lparr>ID = [], name = name', dockerImage = dockerImage', stdErrBuf = [],
      endpoint = endpoint', dockerClient = None, rpcClient = None, clientConn = None\<rparr>"

text \<open>
  One block \<^verbatim>\<open>if d.rpcClient != nil { err := d.rpcClient.Close(); d.rpcClient = nil;
  if err != nil { return err } }\<close> of \<open>Close\<close>: the error it returns early with, if
  any, the client after it, and the calls it made.
\<close>

definition close_rpcClient :: "world \<Rightarrow> Client \<Rightarrow> error option \<times> Client \<times> effect list" where
  "close_rpcClient w d =
     (case rpcClient d of
        None \<Rightarrow> (None, d, [])
      | Some handle \<Rightarrow> (rpc_Close w handle, d\<lparr>rpcClient := None\<rparr>, [Call_rpc_Close]))"

text \<open>
  \<^verbatim>\<open>func (d *Client) Close() error\<close>, lines 51--74. The result of
  \<^verbatim>\<open>RemoveContainer\<close> is dropped; the block that closes the RPC handle stands twice in
  the source.
\<close>

definition Close :: "world \<Rightarrow> Client \<Rightarrow> outcome \<times> Client \<times> effect list" where
  "Close w d =
     (let removal =
            (case dockerClient d of
               None \<Rightarrow> []
             | Some dc \<Rightarrow>
                 (let dropped = docker_RemoveContainer w (ID d) True
                  in [Call_RemoveContainer (ID d) True]))
      in case close_rpcClient w d of
           (Some err, d1, fx1) \<Rightarrow> (Return (Some err), d1, removal @ fx1)
         | (None, d1, fx1) \<Rightarrow>
             (case close_rpcClient w d1 of
                (Some err, d2, fx2) \<Rightarrow> (Return (Some err), d2, removal @ fx1 @ fx2)
              | (None, d2, fx2) \<Rightarrow> (Return None, d2, removal @ fx1 @ fx2)))"

text \<open>
  \<^verbatim>\<open>func (d *Client) AttachStreamingContainer(opts) error\<close>, lines 77--115.
  \<^verbatim>\<open>d.dockerClient.TLSConfig\<close> dereferences the Docker client. The response of
  \<^verbatim>\<open>clientconn.Do\<close> is only printed, and only when \<open>Do\<close> reports an error.
\<close>

definition AttachStreamingContainer ::
  "world \<Rightarrow> Client \<Rightarrow> AttachToContainerOptions \<Rightarrow> outcome \<times> Client" where
  "AttachStreamingContainer w d opts =
     (let uri = ''/containers/'' @ Container opts @ ''/attach?'' @ queryString w opts in
      case url_Parse w (endpoint d @ uri) of
        Inl err \<Rightarrow> (Return (Some err), d)
      | Inr host \<Rightarrow>
          (case dockerClient d of
             None \<Rightarrow> (Panic, d)
           | Some dc \<Rightarrow>
               (case (if TLSConfig dc then tls_Dial w host else net_Dial w host) of
                  Inl err \<Rightarrow> (Return (Some err), d)
                | Inr rawConn \<Rightarrow>
                    (case http_NewRequest w ''POST'' uri of
                       Some err \<Rightarrow> (Return (Some err), d)
                     | None \<Rightarrow>
                         (case clientconn_Do w rawConn uri of
                            (resp, Some err) \<Rightarrow> (Return (Some err), d)
                          | (resp, None) \<Rightarrow>
                              (Return None,
                               d\<lparr>clientConn := Some (clientconn_Hijack w rawConn)\<rparr>))))))"

text \<open>
  One \<open>Read\<close> on the installed pipes, made by the RPC codec. The pipes' \<^verbatim>\<open>stdErrBuf\<close>
  points to the client's buffer (\<open>Start\<close> passes \<^verbatim>\<open>&d.stdErrBuf\<close>), so the call works
  on the client's buffer and leaves its result there.
\<close>

definition pipes_Read :: "Client \<Rightarrow> byte list \<Rightarrow> Client" where
  "pipes_Read d b =
     (case rpcClient d of
        None \<Rightarrow> d
      | Some pipes \<Rightarrow>
          (case Read (pipes\<lparr>dockerPipes.stdErrBuf := stdErrBuf d\<rparr>) b of
             (r, b', pipes') \<Rightarrow>
               d\<lparr>stdErrBuf := dockerPipes.stdErrBuf pipes', rpcClient := Some pipes'\<rparr>))"

text \<open>
  \<^verbatim>\<open>func (d *Client) Call(method, args, reply) error\<close>, lines 118--121: the buffer is
  reset, then the call is handed to the RPC layer, which panics on a nil handle. All
  that the RPC layer does to the client is to read from the pipes; \<open>bufs\<close> are the
  buffers of the reads it makes while the call is in flight.
\<close>

definition Call :: "world \<Rightarrow> Client \<Rightarrow> string \<Rightarrow> byte list list \<Rightarrow> outcome \<times> Client" where
  "Call w d method bufs =
     (let d1 = d\<lparr>stdErrBuf := []\<rparr> in
      case rpcClient d1 of
        None \<Rightarrow> (Panic, d1)
      | Some handle \<Rightarrow> (Return (rpc_Call_result w method), foldl pipes_Read d1 bufs))"

text \<open>\<^verbatim>\<open>func (d *Client) StdError() string\<close>, lines 123--125: a copy of the buffer.\<close>

definition StdError :: "Client \<Rightarrow> byte list" where
  "StdError d = stdErrBuf d"

text \<open>\<^verbatim>\<open>func (d *Client) Start() (err error)\<close>, lines 131--200.\<close>

definition Start :: "world \<Rightarrow> Client \<Rightarrow> outcome \<times> Client" where
  "Start w d =
     (let path = os_Getenv w ''DOCKER_CERT_PATH'' in
      case (if path \<noteq> []
            then docker_NewTLSClient w (endpoint d) (path @ ''/cert.pem'') (path @ ''/key.pem'')
                   (path @ ''/ca.pem'')
            else docker_NewClient w (endpoint d)) of
        Inl err \<Rightarrow> (Return (Some err), d\<lparr>dockerClient := None\<rparr>)
      | Inr dc \<Rightarrow>
          (let d1 = d\<lparr>dockerClient := Some dc\<rparr>;
               opts = \<lparr>Name = (if name d1 \<noteq> [] then name d1 else []),
                       Image = dockerImage d1, OpenStdin = True\<rparr>
           in case docker_CreateContainer w opts of
                Inl err \<Rightarrow> (Return (Some err), d1)
              | Inr cid \<Rightarrow>
                  (let d2 = d1\<lparr>ID := cid\<rparr> in
                   case docker_StartContainer w cid of
                     Some err \<Rightarrow> (Return (Some err), d2)
                   | None \<Rightarrow>
                       (let attachOpts = \<lparr>Container = ID d2, Stdout = True, Stdin = True,
                                          Stderr = True, Stream = True\<rparr>
                        in case AttachStreamingContainer w d2 attachOpts of
                             (Return None, d3) \<Rightarrow>
                               (case clientConn d3 of
                                  None \<Rightarrow> (Panic, d3)
                                | Some c \<Rightarrow>
                                    (Return None,
                                     d3\<lparr>rpcClient :=
                                          Some \<lparr>conn = c, stdErrBuf = stdErrBuf d3,
                                                bytesRemaining = 0, pipeName = 0\<rparr>\<rparr>))
                           | (failed, d3) \<Rightarrow> (failed, d3)))))"

text \<open>
  A world for the examples: no certificate path is set and every collaborator succeeds.
\<close>

definition world0 :: world where
  "world0 =
     \<lparr>os_Getenv = (\<lambda>var. []),
      docker_NewTLSClient = (\<lambda>endpoint' cert key ca. Inr \<lparr>TLSConfig = True\<rparr>),
      docker_NewClient = (\<lambda>endpoint'. Inr \<lparr>TLSConfig = False\<rparr>),
      docker_CreateContainer = (\<lambda>opts. Inr ''c0''),
      docker_StartContainer = (\<lambda>cid. None),
      docker_RemoveContainer = (\<lambda>cid force. None),
      queryString = (\<lambda>opts. ''stderr=1&stdin=1&stdout=1&stream=1''),
      url_Parse = (\<lambda>rawurl. Inr ''192.168.99.100:2376''),
      tls_Dial = (\<lambda>host. Inr []),
      net_Dial = (\<lambda>host. Inr []),
      http_NewRequest = (\<lambda>method uri. None),
      clientconn_Do = (\<lambda>rawConn uri. (Some \<lparr>StatusCode = 101\<rparr>, None)),
      clientconn_Hijack = (\<lambda>rawConn. rawConn),
      rpc_Close = (\<lambda>handle. None),
      rpc_Call_result = (\<lambda>method. None)\<rparr>"

section \<open>Properties of \<^verbatim>\<open>Read\<close>\<close>

lemma conn_Read_length: "length (fst (fst (conn_Read c n))) \<le> n"
  by (simp add: conn_Read_def split: list.splits prod.splits)

lemma BigEndian_uint32_append:
  "4 \<le> length bs \<Longrightarrow> BigEndian_uint32 (bs @ cs) = BigEndian_uint32 bs"
  by (auto simp: BigEndian_uint32_def nth_append)

lemma read_header_8:
  assumes "bytesRemaining pipe = 0"
    and "conn_Read (conn pipe) 1024 = ((d, None), conn')"
    and "length d = 8"
  shows "read_header pipe =
    Inr (pipe\<lparr>conn := conn', pipeName := d ! 0, bytesRemaining := BigEndian_uint32 (drop 4 d)\<rparr>)"
  using assms by (simp add: read_header_def nth_append BigEndian_uint32_append)

lemma read_header_pending: "bytesRemaining pipe \<noteq> 0 \<Longrightarrow> read_header pipe = Inr pipe"
  by (simp add: read_header_def)

text \<open>
  C3. A call that starts a header read (the remaining count is zero) and whose raw read
  returns fewer than 8 bytes without an error fails with the 8-byte-header error, a
  protocol framing error, and leaves the pending tag, the remaining count and the error
  buffer as they were; only the connection has moved on.
\<close>

theorem Read_short_header:
  assumes "bytesRemaining pipe = 0"
    and "conn_Read (conn pipe) 1024 = ((d, None), conn')"
    and "length d < 8"
  shows "Read pipe b = (Inl Expected8ByteHeader, b, pipe\<lparr>conn := conn'\<rparr>)
    \<and> ProtocolFraming Expected8ByteHeader
    \<and> pipeName (snd (snd (Read pipe b))) = pipeName pipe
    \<and> bytesRemaining (snd (snd (Read pipe b))) = bytesRemaining pipe"
  using assms by (simp add: Read_def read_header_def)

theorem Read_short_header_witness:
  "bytesRemaining \<lparr>conn = [([1, 0, 0], None)], stdErrBuf = [], bytesRemaining = 0, pipeName = 1\<rparr> = 0
   \<and> Read \<lparr>conn = [([1, 0, 0], None)], stdErrBuf = [], bytesRemaining = 0, pipeName = 1\<rparr> [7, 7]
       = (Inl Expected8ByteHeader, [7, 7],
          \<lparr>conn = [], stdErrBuf = [], bytesRemaining = 0, pipeName = 1\<rparr>)"
  using Read_short_header
    [of "\<lparr>conn = [([1, 0, 0], None)], stdErrBuf = [], bytesRemaining = 0, pipeName = 1\<rparr>"
        "[1, 0, 0]" "[]" "[7, 7]"]
  by (simp add: conn_Read_def)

text \<open>
  C9. A header read is accepted only when the raw read returns exactly 8 bytes. When the
  remaining count is zero and the raw read reports no error, the call fails with the
  8-byte-header error exactly when the count is not 8, whether smaller or larger: a
  header that arrives together with its payload in one raw read is refused, its first
  8 bytes are not parsed, and the pending tag and remaining count stay as they were.
\<close>

theorem Read_header_exactly_8:
  assumes "bytesRemaining pipe = 0"
    and "conn_Read (conn pipe) 1024 = ((d, None), conn')"
  shows "(fst (Read pipe b) = Inl Expected8ByteHeader) = (length d \<noteq> 8)
    \<and> (if length d = 8
       then Read pipe b =
         read_payload (pipe\<lparr>conn := conn', pipeName := d ! 0,
                            bytesRemaining := BigEndian_uint32 (drop 4 d)\<rparr>) b
       else Read pipe b = (Inl Expected8ByteHeader, b, pipe\<lparr>conn := conn'\<rparr>))"
proof (cases "length d = 8")
  case False
  with assms show ?thesis by (simp add: Read_def read_header_def)
next
  case True
  have "Read pipe b =
    read_payload (pipe\<lparr>conn := conn', pipeName := d ! 0,
                       bytesRemaining := BigEndian_uint32 (drop 4 d)\<rparr>) b"
    by (simp add: Read_def read_header_8 [OF assms True])
  moreover have "fst (read_payload q b) \<noteq> Inl Expected8ByteHeader" for q
    by (auto simp: read_payload_def Let_def split: prod.splits option.splits)
  ultimately show ?thesis using True by simp
qed

theorem Read_header_exactly_8_witness:
  "bytesRemaining \<lparr>conn = [([1, 0, 0, 0, 0, 0, 0, 2, 123, 125], None)], stdErrBuf = [],
                   bytesRemaining = 0, pipeName = 0\<rparr> = 0
   \<and> Read \<lparr>conn = [([1, 0, 0, 0, 0, 0, 0, 2, 123, 125], None)], stdErrBuf = [],
            bytesRemaining = 0, pipeName = 0\<rparr> [0, 0, 0, 0]
       = (Inl Expected8ByteHeader, [0, 0, 0, 0],
          \<lparr>conn = [], stdErrBuf = [], bytesRemaining = 0, pipeName = 0\<rparr>)"
  using Read_header_exactly_8
    [of "\<lparr>conn = [([1, 0, 0, 0, 0, 0, 0, 2, 123, 125], None)], stdErrBuf = [],
          bytesRemaining = 0, pipeName = 0\<rparr>"
        "[1, 0, 0, 0, 0, 0, 0, 2, 123, 125]" "[]" "[0, 0, 0, 0]"]
  by (simp add: conn_Read_def)

text \<open>
  C10. When the pending tag, after the header stage of the call, is none of 0, 1 and 2,
  the call still makes the raw read into the caller's buffer and still updates the
  remaining count, and only then returns the unsupported-tag error: the bytes of that
  raw read are taken off the connection, which goes on behind them, and nothing is
  added to the error buffer.
\<close>

theorem Read_unsupported_pipe:
  assumes "read_header pipe = Inr pend"
    and "pipeName pend \<noteq> STDIN" and "pipeName pend \<noteq> STDOUT" and "pipeName pend \<noteq> STDERR"
    and "conn_Read (conn pend) (length b) = ((d, None), conn')"
  shows "Read pipe b =
    (Inl (UnsupportedPipe (pipeName pend)), d @ drop (length d) b,
     pend\<lparr>conn := conn',
          bytesRemaining := update_remaining (length b) (bytesRemaining pend)\<rparr>)"
  using assms by (simp add: Read_def read_payload_def)

theorem Read_unsupported_pipe_witness:
  "Read \<lparr>conn = [([3, 0, 0, 0, 0, 0, 0, 5], None), ([104, 101, 108, 108, 111], None)],
         stdErrBuf = [], bytesRemaining = 0, pipeName = 0\<rparr> [0, 0, 0]
   = (Inl (UnsupportedPipe 3), [104, 101, 108],
      \<lparr>conn = [([108, 111], None)], stdErrBuf = [], bytesRemaining = 2, pipeName = 3\<rparr>)"
proof -
  let ?pipe = "\<lparr>conn = [([3, 0, 0, 0, 0, 0, 0, 5], None), ([104, 101, 108, 108, 111], None)],
                stdErrBuf = [], bytesRemaining = 0, pipeName = 0 :: byte\<rparr>"
  let ?pend = "\<lparr>conn = [([104, 101, 108, 108, 111 :: byte], None)],
                stdErrBuf = [], bytesRemaining = 5, pipeName = 3 :: byte\<rparr>"
  have h: "read_header ?pipe = Inr ?pend"
    by (simp add: read_header_def conn_Read_def BigEndian_uint32_def)
  have r: "conn_Read (conn ?pend) (length [0, 0, 0 :: byte])
             = (([104, 101, 108], None), [([108, 111], None)])"
    by (simp add: conn_Read_def)
  show ?thesis
    using Read_unsupported_pipe [OF h _ _ _ r]
    by (simp add: STDIN_def STDOUT_def STDERR_def update_remaining_def)
qed

section \<open>The stream of frames\<close>

lemma update_remaining_less:
  assumes "cap < 2 ^ 32" "n < 2 ^ 32" "cap < n"
  shows "update_remaining cap (of_nat n) = of_nat (n - cap)"
proof -
  have "(of_nat cap :: uint32) < of_nat n"
    using assms by (simp add: word_less_nat_alt unat_of_nat)
  then show ?thesis using assms by (simp add: update_remaining_def)
qed

lemma update_remaining_done:
  assumes "cap < 2 ^ 32" "n < 2 ^ 32" "n \<le> cap"
  shows "update_remaining cap (of_nat n) = 0"
proof -
  have "\<not> (of_nat cap :: uint32) < of_nat n"
    using assms by (simp add: word_less_nat_alt unat_of_nat)
  then show ?thesis by (simp add: update_remaining_def)
qed

lemma of_nat_pending:
  assumes "0 < n" "n < 2 ^ 32"
  shows "(of_nat n :: uint32) \<noteq> 0"
proof
  assume "(of_nat n :: uint32) = 0"
  then have "unat (of_nat n :: uint32) = 0" by simp
  with assms show False by (simp add: unat_of_nat)
qed

lemma BigEndian_frame_header: "BigEndian_uint32 (drop 4 (frame_header t n)) = n"
proof -
  have "push_bit 24 (ucast (ucast (drop_bit 24 n) :: byte)) OR
        push_bit 16 (ucast (ucast (drop_bit 16 n) :: byte)) OR
        push_bit 8 (ucast (ucast (drop_bit 8 n) :: byte)) OR
        ucast (ucast n :: byte) = n"
  proof (rule bit_word_eqI)
    fix k :: nat
    assume "k < LENGTH(32)"
    then consider "k < 8" | "8 \<le> k" "k < 16" | "16 \<le> k" "k < 24" | "24 \<le> k" "k < 32"
      by fastforce
    then show "bit (push_bit 24 (ucast (ucast (drop_bit 24 n) :: byte)) OR
        push_bit 16 (ucast (ucast (drop_bit 16 n) :: byte)) OR
        push_bit 8 (ucast (ucast (drop_bit 8 n) :: byte)) OR
        ucast (ucast n :: byte) :: uint32) k = bit n k"
      by cases (auto simp: bit_simps)
  qed
  then show ?thesis
    by (simp add: BigEndian_uint32_def frame_header_def)
qed

lemma Read_pending: "bytesRemaining pipe \<noteq> 0 \<Longrightarrow> Read pipe b = read_payload pipe b"
  by (simp add: Read_def read_header_def)

lemma read_payload_whole:
  assumes "conn pipe = (pl, None) # rest" and "pl \<noteq> []" and "length pl \<le> length b"
  shows "read_payload pipe b =
    (if pipeName pipe = STDOUT then Inr (length pl) else
     if pipeName pipe = STDIN \<or> pipeName pipe = STDERR then Inr 0
     else Inl (UnsupportedPipe (pipeName pipe)),
     pl @ drop (length pl) b,
     pipe\<lparr>conn := rest,
          bytesRemaining := update_remaining (length b) (bytesRemaining pipe),
          dockerPipes.stdErrBuf := dockerPipes.stdErrBuf pipe @ (if pipeName pipe = STDERR then pl else [])\<rparr>)"
  using assms
  by (auto simp: read_payload_def conn_Read_def Let_def STDIN_def STDOUT_def STDERR_def)

lemma read_payload_part:
  assumes "conn pipe = (pl, None) # rest" and "length b < length pl" and "b \<noteq> []"
  shows "read_payload pipe b =
    (if pipeName pipe = STDOUT then Inr (length b) else
     if pipeName pipe = STDIN \<or> pipeName pipe = STDERR then Inr 0
     else Inl (UnsupportedPipe (pipeName pipe)),
     take (length b) pl,
     pipe\<lparr>conn := (drop (length b) pl, None) # rest,
          bytesRemaining := update_remaining (length b) (bytesRemaining pipe),
          dockerPipes.stdErrBuf := dockerPipes.stdErrBuf pipe @ (if pipeName pipe = STDERR then take (length b) pl else [])\<rparr>)"
  using assms
  by (auto simp: read_payload_def conn_Read_def Let_def STDIN_def STDOUT_def STDERR_def)

lemma reads_for_whole: "0 < n \<Longrightarrow> n \<le> cap \<Longrightarrow> reads_for cap n = Suc 0"
  by (simp add: reads_for_def)

lemma reads_for_part: "0 < cap \<Longrightarrow> cap < n \<Longrightarrow> reads_for cap n = Suc (reads_for cap (n - cap))"
proof -
  assume a: "0 < cap" "cap < n"
  then have "n - 1 = (n - cap - 1) + cap" by simp
  then have "(n - 1) div cap = Suc ((n - cap - 1) div cap)"
    using a by (metis div_add_self2 less_numeral_extra(3) Suc_eq_plus1)
  then show ?thesis by (simp add: reads_for_def)
qed

lemma payload_loop:
  assumes "0 < cap" "cap < 2 ^ 32" "channel (pipeName pipe)"
  shows "pl \<noteq> [] \<Longrightarrow> length pl < 2 ^ 32 \<Longrightarrow> conn pipe = (pl, None) # rest \<Longrightarrow>
     bytesRemaining pipe = of_nat (length pl) \<Longrightarrow>
     read_loop cap (reads_for cap (length pl)) pipe =
       (None, if pipeName pipe = STDOUT then pl else [],
        pipe\<lparr>conn := rest, bytesRemaining := 0,
             dockerPipes.stdErrBuf :=
               dockerPipes.stdErrBuf pipe @ (if pipeName pipe = STDERR then pl else [])\<rparr>)"
  using assms(3)
proof (induction "length pl" arbitrary: pl pipe rule: less_induct)
  case less
  have pend: "bytesRemaining pipe \<noteq> 0"
    using less.prems by (simp add: of_nat_pending)
  show ?case
  proof (cases "length pl \<le> cap")
    case True
    have r: "reads_for cap (length pl) = Suc 0"
      using True less.prems by (simp add: reads_for_whole)
    have u: "update_remaining cap (of_nat (length pl)) = 0"
      using True less.prems assms by (simp add: update_remaining_done)
    show ?thesis
      using less.prems True u
      by (auto simp: r Read_pending [OF pend] read_payload_whole channel_def
                     STDIN_def STDOUT_def STDERR_def)
  next
    case False
    then have lt: "cap < length pl" by simp
    have r: "reads_for cap (length pl) = Suc (reads_for cap (length pl - cap))"
      using lt assms by (simp add: reads_for_part)
    have u: "update_remaining cap (of_nat (length pl)) = of_nat (length pl - cap)"
      using lt less.prems assms by (simp add: update_remaining_less)
    let ?b = "replicate cap (0 :: byte)"
    let ?pipe' = "pipe\<lparr>conn := (drop cap pl, None) # rest,
          bytesRemaining := of_nat (length pl - cap),
          dockerPipes.stdErrBuf := dockerPipes.stdErrBuf pipe @ (if pipeName pipe = STDERR then take cap pl else [])\<rparr>"
    have step: "Read pipe ?b =
      (if pipeName pipe = STDOUT then Inr cap else Inr 0, take cap pl, ?pipe')"
      using less.prems lt assms u
      by (auto simp: Read_pending [OF pend] read_payload_part channel_def
                     STDIN_def STDOUT_def STDERR_def)
    have ih: "read_loop cap (reads_for cap (length (drop cap pl))) ?pipe' =
       (None, if pipeName ?pipe' = STDOUT then drop cap pl else [],
        ?pipe'\<lparr>conn := rest, bytesRemaining := 0,
             dockerPipes.stdErrBuf :=
               dockerPipes.stdErrBuf ?pipe' @ (if pipeName ?pipe' = STDERR then drop cap pl else [])\<rparr>)"
      using less.prems lt assms
      by (intro less.hyps) auto
    show ?thesis
      using ih lt by (auto simp: r step)
  qed
qed

lemma read_loop_add:
  "read_loop cap (j + k) pipe =
     (case read_loop cap j pipe of
        (Some err, out, pipe') \<Rightarrow> (Some err, out, pipe')
      | (None, out, pipe') \<Rightarrow>
          (case read_loop cap k pipe' of (r, out', pipe'') \<Rightarrow> (r, out @ out', pipe'')))"
proof (induction j arbitrary: pipe)
  case 0
  show ?case by (simp split: prod.splits)
next
  case (Suc j)
  show ?case
    by (simp add: Suc split: prod.splits sum.splits option.splits)
qed

lemma read_loop_header:
  assumes "bytesRemaining pipe = 0"
    and "conn pipe = (frame_header t n, None) # rest"
    and "n \<noteq> 0"
  shows "read_loop cap (Suc k) pipe =
         read_loop cap (Suc k) (pipe\<lparr>conn := rest, pipeName := t, bytesRemaining := n\<rparr>)"
proof -
  have c: "conn_Read (conn pipe) 1024 = ((frame_header t n, None), rest)"
    using assms by (simp add: conn_Read_def frame_header_def)
  have "read_header pipe = Inr (pipe\<lparr>conn := rest, pipeName := t, bytesRemaining := n\<rparr>)"
    using read_header_8 [OF assms(1) c]
    by (simp add: BigEndian_frame_header) (simp add: frame_header_def)
  moreover have "read_header (pipe\<lparr>conn := rest, pipeName := t, bytesRemaining := n\<rparr>)
      = Inr (pipe\<lparr>conn := rest, pipeName := t, bytesRemaining := n\<rparr>)"
    using assms by (simp add: read_header_def)
  ultimately have "Read pipe b = Read (pipe\<lparr>conn := rest, pipeName := t, bytesRemaining := n\<rparr>) b" for b
    by (simp add: Read_def)
  then show ?thesis by simp
qed

lemma frame_loop:
  assumes "0 < cap" "cap < 2 ^ 32" "good_frame f"
    and "bytesRemaining pipe = 0" and "conn pipe = arrival f @ rest"
  shows "read_loop cap (reads_for cap (length (snd f))) pipe =
       (None, outputs [f],
        pipe\<lparr>conn := rest, pipeName := fst f, bytesRemaining := 0,
             dockerPipes.stdErrBuf := dockerPipes.stdErrBuf pipe @ errors [f]\<rparr>)"
proof -
  obtain t pl where f: "f = (t, pl)" by (cases f)
  have pl: "pl \<noteq> []" "length pl < 2 ^ 32" "channel t"
    using assms(3) by (simp_all add: f good_frame_def valid_frame_def channel_def)
  let ?n = "of_nat (length pl) :: uint32"
  let ?pend = "pipe\<lparr>conn := (pl, None) # rest, pipeName := t, bytesRemaining := ?n\<rparr>"
  have n: "?n \<noteq> 0" using pl by (simp add: of_nat_pending)
  have c: "conn pipe = (frame_header t ?n, None) # (pl, None) # rest"
    using assms(5) pl by (simp add: f arrival_def)
  obtain k where k: "reads_for cap (length pl) = Suc k" by (simp add: reads_for_def)
  have "read_loop cap (reads_for cap (length pl)) pipe =
        read_loop cap (reads_for cap (length pl)) ?pend"
    unfolding k by (rule read_loop_header [OF assms(4) c n])
  also have "\<dots> = (None, if pipeName ?pend = STDOUT then pl else [],
        ?pend\<lparr>conn := rest, bytesRemaining := 0,
             dockerPipes.stdErrBuf :=
               dockerPipes.stdErrBuf ?pend @ (if pipeName ?pend = STDERR then pl else [])\<rparr>)"
    using pl by (intro payload_loop [OF assms(1,2)]) simp_all
  finally show ?thesis
    by (simp add: f outputs_def errors_def)
qed

lemma wire_loop:
  assumes "0 < cap" "cap < 2 ^ 32"
  shows "list_all good_frame fs \<Longrightarrow> bytesRemaining pipe = 0 \<Longrightarrow> conn pipe = wire fs @ rest \<Longrightarrow>
     read_loop cap (reads_needed cap fs) pipe =
       (None, outputs fs,
        pipe\<lparr>conn := rest,
             pipeName := (if fs = [] then pipeName pipe else fst (last fs)),
             bytesRemaining := 0,
             dockerPipes.stdErrBuf := dockerPipes.stdErrBuf pipe @ errors fs\<rparr>)"
proof (induction fs arbitrary: pipe)
  case Nil
  then show ?case
    by (simp add: reads_needed_def outputs_def errors_def wire_def)
next
  case (Cons f fs)
  let ?mid = "pipe\<lparr>conn := wire fs @ rest, pipeName := fst f, bytesRemaining := 0,
             dockerPipes.stdErrBuf := dockerPipes.stdErrBuf pipe @ errors [f]\<rparr>"
  have one: "read_loop cap (reads_for cap (length (snd f))) pipe = (None, outputs [f], ?mid)"
    using Cons.prems by (intro frame_loop [OF assms]) (simp_all add: wire_def)
  have more: "read_loop cap (reads_needed cap fs) ?mid =
       (None, outputs fs,
        ?mid\<lparr>conn := rest,
             pipeName := (if fs = [] then pipeName ?mid else fst (last fs)),
             bytesRemaining := 0,
             dockerPipes.stdErrBuf := dockerPipes.stdErrBuf ?mid @ errors fs\<rparr>)"
    using Cons.prems by (intro Cons.IH) simp_all
  have "reads_needed cap (f # fs) = reads_for cap (length (snd f)) + reads_needed cap fs"
    by (simp add: reads_needed_def)
  then show ?case
    using one more by (simp add: read_loop_add outputs_def errors_def)
qed

text \<open>
  C1, as amended. Take frames whose tags are 0, 1 or 2 and whose payloads are not empty
  and fit the length field, each arriving with its header as a raw read of its own and
  its payload available in full behind it. Then successive calls of \<open>Read\<close> with
  buffers of \<open>cap\<close> bytes (\<open>0 < cap < 2 ^ 32\<close>), as many as the payloads need, all
  succeed; the bytes they produce are exactly the output-tagged payloads, in order; the
  error-tagged payloads are appended to the error buffer; and the pipe ends with
  nothing pending. Moreover a call whose pending tag is the input or the error tag,
  and whose raw payload read reports no error, reports zero bytes and no error.
\<close>

theorem Read_outputs_exactly:
  assumes "0 < cap" and "cap < 2 ^ 32"
    and "list_all good_frame fs"
    and "bytesRemaining pipe = 0" and "conn pipe = wire fs"
  shows "read_loop cap (reads_needed cap fs) pipe =
       (None, outputs fs,
        pipe\<lparr>conn := [],
             pipeName := (if fs = [] then pipeName pipe else fst (last fs)),
             bytesRemaining := 0,
             dockerPipes.stdErrBuf := dockerPipes.stdErrBuf pipe @ errors fs\<rparr>)
    \<and> (read_header q = Inr pend \<and> (pipeName pend = STDIN \<or> pipeName pend = STDERR)
         \<and> snd (fst (conn_Read (conn pend) (length b))) = None
       \<longrightarrow> fst (Read q b) = Inr 0)"
proof
  show "read_loop cap (reads_needed cap fs) pipe =
       (None, outputs fs,
        pipe\<lparr>conn := [],
             pipeName := (if fs = [] then pipeName pipe else fst (last fs)),
             bytesRemaining := 0,
             dockerPipes.stdErrBuf := dockerPipes.stdErrBuf pipe @ errors fs\<rparr>)"
    using wire_loop [OF assms(1,2,3,4), of "[]"] assms(5) by simp
  show "read_header q = Inr pend \<and> (pipeName pend = STDIN \<or> pipeName pend = STDERR)
         \<and> snd (fst (conn_Read (conn pend) (length b))) = None
       \<longrightarrow> fst (Read q b) = Inr 0"
    by (auto simp: Read_def read_payload_def Let_def STDIN_def STDOUT_def STDERR_def
             split: prod.splits option.splits)
qed

theorem Read_outputs_exactly_witness:
  "read_loop 4 3
     \<lparr>conn = [([2, 0, 0, 0, 0, 0, 0, 5], None), ([111, 111, 112, 115, 33], None),
              ([1, 0, 0, 0, 0, 0, 0, 2], None), ([123, 125], None)],
      stdErrBuf = [], bytesRemaining = 0, pipeName = 0\<rparr>
   = (None, [123, 125],
      \<lparr>conn = [], stdErrBuf = [111, 111, 112, 115, 33], bytesRemaining = 0, pipeName = 1\<rparr>)
   \<and> fst (Read \<lparr>conn = [([2, 0, 0, 0, 0, 0, 0, 5], None), ([111, 111, 112, 115, 33], None)],
                stdErrBuf = [], bytesRemaining = 0, pipeName = 0\<rparr> [0, 0, 0, 0, 0, 0, 0, 0])
     = Inr 0"
proof -
  let ?fs = "[(2, [111, 111, 112, 115, 33]), (1, [123, 125])] :: frame list"
  let ?pipe = "\<lparr>conn = [([2, 0, 0, 0, 0, 0, 0, 5], None), ([111, 111, 112, 115, 33], None),
              ([1, 0, 0, 0, 0, 0, 0, 2], None), ([123, 125], None)],
      stdErrBuf = [], bytesRemaining = 0, pipeName = 0 :: byte\<rparr>"
  let ?q = "\<lparr>conn = [([2, 0, 0, 0, 0, 0, 0, 5], None), ([111, 111, 112, 115, 33], None)],
                stdErrBuf = [], bytesRemaining = 0, pipeName = 0 :: byte\<rparr>"
  let ?pend = "\<lparr>conn = [([111, 111, 112, 115, 33], None)],
                stdErrBuf = [], bytesRemaining = 5, pipeName = 2 :: byte\<rparr>"
  have g: "list_all good_frame ?fs"
    by (simp add: good_frame_def valid_frame_def STDIN_def STDOUT_def STDERR_def)
  have w: "conn ?pipe = wire ?fs"
    by (simp add: wire_def arrival_def frame_header_def)
  have n: "reads_needed 4 ?fs = 3"
    by (simp add: reads_needed_def reads_for_def)
  have h: "read_header ?q = Inr ?pend"
    by (simp add: read_header_def conn_Read_def BigEndian_uint32_def)
  have c: "snd (fst (conn_Read (conn ?pend) (length [0, 0, 0, 0, 0, 0, 0, 0 :: byte]))) = None"
    by (simp add: conn_Read_def)
  show ?thesis
    using Read_outputs_exactly [of 4 ?fs ?pipe ?q ?pend "[0, 0, 0, 0, 0, 0, 0, 0]", OF _ _ g _ w]
      h c
    by (simp add: n outputs_def errors_def STDIN_def STDOUT_def STDERR_def)
qed

text \<open>
  C1 as stated fails when a valid frame does not arrive header first: one output frame
  with payload \<^verbatim>\<open>{}\<close> whose 10 bytes are available together makes the first call
  fail on the guard \<^verbatim>\<open>c != 8\<close>, and no later call produces the output bytes.
\<close>

theorem Read_coalesced_counterexample:
  "valid_frame (STDOUT, [123, 125])
   \<and> concat (map fst (coalesced (STDOUT, [123, 125]))) = encode (STDOUT, [123, 125])
   \<and> outputs [(STDOUT, [123, 125])] = [123, 125]
   \<and> read_loop 1024 3
        \<lparr>conn = coalesced (STDOUT, [123, 125]), stdErrBuf = [],
         bytesRemaining = 0, pipeName = 0\<rparr>
      = (Some Expected8ByteHeader, [],
         \<lparr>conn = [], stdErrBuf = [], bytesRemaining = 0, pipeName = 0\<rparr>)
   \<and> fst (snd (read_loop 1024 3
        \<lparr>conn = coalesced (STDOUT, [123, 125]), stdErrBuf = [],
         bytesRemaining = 0, pipeName = 0\<rparr>)) \<noteq> outputs [(STDOUT, [123, 125])]"
  by (simp add: valid_frame_def coalesced_def encode_def outputs_def frame_header_def
        Read_def read_header_def conn_Read_def numeral_3_eq_3)

text \<open>
  C2 at a payload that arrives in two pieces: an output frame of 5 bytes whose payload
  comes as 1 byte and then 4, read with buffers of 3 bytes. The first call takes 1 byte
  and lowers the remaining count by the buffer length, 3, to 2; the second takes 3
  bytes and sets the count to 0 with one payload byte still unread; the third takes
  that byte for a header and fails.
\<close>

theorem Read_short_payload_read:
  "Read \<lparr>conn = [(frame_header STDOUT 5, None), ([97], None), ([98, 99, 100, 101], None)],
         stdErrBuf = [], bytesRemaining = 0, pipeName = 0\<rparr> [0, 0, 0]
   = (Inr 1, [97, 0, 0],
      \<lparr>conn = [([98, 99, 100, 101], None)], stdErrBuf = [],
       bytesRemaining = 2, pipeName = STDOUT\<rparr>)
   \<and> Read \<lparr>conn = [([98, 99, 100, 101], None)], stdErrBuf = [],
            bytesRemaining = 2, pipeName = STDOUT\<rparr> [0, 0, 0]
   = (Inr 3, [98, 99, 100],
      \<lparr>conn = [([101], None)], stdErrBuf = [], bytesRemaining = 0, pipeName = STDOUT\<rparr>)
   \<and> Read \<lparr>conn = [([101], None)], stdErrBuf = [], bytesRemaining = 0, pipeName = STDOUT\<rparr>
         [0, 0, 0]
   = (Inl Expected8ByteHeader, [0, 0, 0],
      \<lparr>conn = [], stdErrBuf = [], bytesRemaining = 0, pipeName = STDOUT\<rparr>)"
  by (simp add: Read_def read_header_def read_payload_def conn_Read_def frame_header_def
        BigEndian_uint32_def update_remaining_def STDIN_def STDOUT_def STDERR_def)

text \<open>
  C7 at a frame of length zero: an output frame with no payload, followed by an error
  frame of 5 bytes. The call that reads the empty frame's header goes on to its raw
  payload read, which takes the 8 header bytes of the next frame and returns them as
  output; the next call takes the 5 payload bytes for a header and fails.
\<close>

theorem Read_zero_length_frame:
  "Read \<lparr>conn = [(frame_header STDOUT 0, None), (frame_header STDERR 5, None),
                 ([111, 111, 112, 115, 33], None)],
         stdErrBuf = [], bytesRemaining = 0, pipeName = 0\<rparr> (replicate 8 0)
   = (Inr 8, frame_header STDERR 5,
      \<lparr>conn = [([111, 111, 112, 115, 33], None)], stdErrBuf = [],
       bytesRemaining = 0, pipeName = STDOUT\<rparr>)
   \<and> Read \<lparr>conn = [([111, 111, 112, 115, 33], None)], stdErrBuf = [],
            bytesRemaining = 0, pipeName = STDOUT\<rparr> (replicate 8 0)
   = (Inl Expected8ByteHeader, replicate 8 0,
      \<lparr>conn = [], stdErrBuf = [], bytesRemaining = 0, pipeName = STDOUT\<rparr>)"
  by (simp add: Read_def read_header_def read_payload_def conn_Read_def frame_header_def
        BigEndian_uint32_def update_remaining_def STDIN_def STDOUT_def STDERR_def)

section \<open>The client\<close>

text \<open>
  C5. On an active client (a Docker client and an RPC handle are installed) \<open>Close\<close>
  first asks the Docker client to remove the container, by force, and drops the result
  of that request, then closes the RPC handle and clears it; it returns what closing
  the handle returned, an error or none. Whatever the removal request answers, the
  outcome of \<open>Close\<close> is the same.
\<close>

theorem Close_active:
  assumes "dockerClient d = Some dc" and "rpcClient d = Some handle"
  shows "Close w d =
      (Return (rpc_Close w handle), d\<lparr>rpcClient := None\<rparr>,
       [Call_RemoveContainer (ID d) True, Call_rpc_Close])
    \<and> Close (w\<lparr>docker_RemoveContainer := removal\<rparr>) d = Close w d"
  using assms
  by (simp add: Close_def close_rpcClient_def Let_def split: option.splits)

theorem Close_active_witness:
  "Close (world0\<lparr>docker_RemoveContainer := (\<lambda>cid force. Some (External ''no such container''))\<rparr>)
     ((NewClient ''XXX-test'' ''docker-plugin:latest'' ''tcp://192.168.99.100:2376'')
        \<lparr>ID := ''c0'', dockerClient := Some \<lparr>TLSConfig = False\<rparr>,
         rpcClient := Some \<lparr>conn = [], stdErrBuf = [], bytesRemaining = 0, pipeName = 0\<rparr>\<rparr>)
   = (Return None,
      (NewClient ''XXX-test'' ''docker-plugin:latest'' ''tcp://192.168.99.100:2376'')
        \<lparr>ID := ''c0'', dockerClient := Some \<lparr>TLSConfig = False\<rparr>\<rparr>,
      [Call_RemoveContainer ''c0'' True, Call_rpc_Close])"
  using Close_active
    [of "(NewClient ''XXX-test'' ''docker-plugin:latest'' ''tcp://192.168.99.100:2376'')
        \<lparr>ID := ''c0'', dockerClient := Some \<lparr>TLSConfig = False\<rparr>,
         rpcClient := Some \<lparr>conn = [], stdErrBuf = [], bytesRemaining = 0, pipeName = 0\<rparr>\<rparr>"
        "\<lparr>TLSConfig = False\<rparr>"
        "\<lparr>conn = [], stdErrBuf = [], bytesRemaining = 0, pipeName = 0\<rparr>"
        "world0\<lparr>docker_RemoveContainer := (\<lambda>cid force. Some (External ''no such container''))\<rparr>"]
  by (simp add: NewClient_def world0_def)

text \<open>
  C6 at a response that is not a success: the endpoint parses, the dial succeeds, the
  request is built, and \<^verbatim>\<open>clientconn.Do\<close> returns a response with status 404 and no
  error, as it does for any response it could read. The status is never looked at:
  the connection is hijacked and the method returns no error.
\<close>

theorem Attach_non_success_response:
  "AttachStreamingContainer
     (world0\<lparr>clientconn_Do := (\<lambda>rawConn uri. (Some \<lparr>StatusCode = 404\<rparr>, None))\<rparr>)
     ((NewClient ''XXX-test'' ''docker-plugin:latest'' ''tcp://192.168.99.100:2376'')
        \<lparr>ID := ''c0'', dockerClient := Some \<lparr>TLSConfig = False\<rparr>\<rparr>)
     \<lparr>Container = ''c0'', Stdout = True, Stdin = True, Stderr = True, Stream = True\<rparr>
   = (Return None,
      (NewClient ''XXX-test'' ''docker-plugin:latest'' ''tcp://192.168.99.100:2376'')
        \<lparr>ID := ''c0'', dockerClient := Some \<lparr>TLSConfig = False\<rparr>, clientConn := Some []\<rparr>)"
  by (simp add: AttachStreamingContainer_def world0_def NewClient_def)

lemma Close_no_rpcClient:
  "rpcClient d = None \<Longrightarrow> fst (Close w d) = Return None \<and> fst (snd (Close w d)) = d"
  by (simp add: Close_def close_rpcClient_def Let_def)

lemma Close_never_panics: "fst (Close w d) \<noteq> Panic"
  by (simp add: Close_def close_rpcClient_def Let_def split: option.splits)

lemma Attach_rpcClient:
  "AttachStreamingContainer w d opts = (r, d') \<Longrightarrow> rpcClient d' = rpcClient d"
  unfolding AttachStreamingContainer_def Let_def
  by (auto split: sum.splits option.splits prod.splits)

lemma if_nonempty: "(if n \<noteq> [] then n else []) = n"
  by simp

lemma Start_failed_rpcClient:
  assumes "fst (Start w d) \<noteq> Return None"
  shows "rpcClient (snd (Start w d)) = rpcClient d"
proof -
  define made where "made =
    (if os_Getenv w ''DOCKER_CERT_PATH'' \<noteq> []
     then docker_NewTLSClient w (endpoint d)
            (os_Getenv w ''DOCKER_CERT_PATH'' @ ''/cert.pem'')
            (os_Getenv w ''DOCKER_CERT_PATH'' @ ''/key.pem'')
            (os_Getenv w ''DOCKER_CERT_PATH'' @ ''/ca.pem'')
     else docker_NewClient w (endpoint d))"
  show ?thesis
  proof (cases made)
    case (Inl err)
    then show ?thesis
      unfolding made_def by (simp add: Start_def Let_def)
  next
    case (Inr dc)
    note dc = this
    define opts where "opts = \<lparr>Name = name d,
                       Image = dockerImage d, OpenStdin = True\<rparr>"
    show ?thesis
    proof (cases "docker_CreateContainer w opts")
      case (Inl err)
      with dc show ?thesis
        unfolding made_def opts_def Start_def Let_def if_nonempty by simp
    next
      case (Inr cid)
      note cid = this
      show ?thesis
      proof (cases "docker_StartContainer w cid")
        case (Some err)
        with dc cid show ?thesis
          unfolding made_def opts_def Start_def Let_def if_nonempty by simp
      next
        case None
        let ?d2 = "d\<lparr>dockerClient := Some dc, ID := cid\<rparr>"
        let ?a = "\<lparr>Container = cid, Stdout = True, Stdin = True, Stderr = True, Stream = True\<rparr>"
        obtain r d3 where a: "AttachStreamingContainer w ?d2 ?a = (r, d3)"
          by (cases "AttachStreamingContainer w ?d2 ?a")
        have keep: "rpcClient d3 = rpcClient d"
          using Attach_rpcClient [OF a] by simp
        have s: "Start w d =
          (case (r, d3) of
             (Return None, d3) \<Rightarrow>
               (case clientConn d3 of
                  None \<Rightarrow> (Panic, d3)
                | Some c \<Rightarrow>
                    (Return None,
                     d3\<lparr>rpcClient := Some \<lparr>conn = c, stdErrBuf = stdErrBuf d3,
                                              bytesRemaining = 0, pipeName = 0\<rparr>\<rparr>))
           | (failed, d3) \<Rightarrow> (failed, d3))"
          using dc cid None a
          unfolding made_def opts_def Start_def Let_def if_nonempty by simp
        show ?thesis
          using assms keep unfolding s
          by (simp split: outcome.splits option.splits)
      qed
    qed
  qed
qed

text \<open>
  C8. On a client without an RPC handle \<open>Close\<close> returns no error and leaves the
  client as it is. A \<open>Start\<close> that does not return \<^verbatim>\<open>nil\<close> installs no handle, so
  this holds for a client that was never started and for one whose \<open>Start\<close> failed,
  at whichever step. \<open>Close\<close> never panics, on any client: each pointer it uses is
  checked against \<^verbatim>\<open>nil\<close> first.
\<close>

theorem Close_after_failed_Start:
  assumes "rpcClient d = None"
  shows "fst (Close w d) = Return None
    \<and> fst (snd (Close w d)) = d
    \<and> (fst (Start w d) \<noteq> Return None \<longrightarrow>
         fst (Close w' (snd (Start w d))) = Return None
         \<and> fst (snd (Close w' (snd (Start w d)))) = snd (Start w d))
    \<and> fst (Close w c) \<noteq> Panic"
  using assms Start_failed_rpcClient [of w d]
  by (simp add: Close_no_rpcClient Close_never_panics)

theorem Close_after_failed_Start_witness:
  "fst (Start (world0\<lparr>docker_CreateContainer := (\<lambda>opts. Inl (External ''no such image''))\<rparr>)
         (NewClient ''XXX-test'' ''docker-plugin:latest'' ''tcp://192.168.99.100:2376''))
     = Return (Some (External ''no such image''))
   \<and> fst (Close world0
         (snd (Start (world0\<lparr>docker_CreateContainer := (\<lambda>opts. Inl (External ''no such image''))\<rparr>)
           (NewClient ''XXX-test'' ''docker-plugin:latest'' ''tcp://192.168.99.100:2376''))))
     = Return None
   \<and> fst (Close (world0\<lparr>docker_CreateContainer := (\<lambda>opts. Inl (External ''no such image''))\<rparr>)
         (NewClient ''XXX-test'' ''docker-plugin:latest'' ''tcp://192.168.99.100:2376''))
     = Return None"
proof -
  let ?d = "NewClient ''XXX-test'' ''docker-plugin:latest'' ''tcp://192.168.99.100:2376''"
  let ?w = "world0\<lparr>docker_CreateContainer := (\<lambda>opts. Inl (External ''no such image''))\<rparr>"
  have r: "rpcClient ?d = None" by (simp add: NewClient_def)
  have s: "fst (Start ?w ?d) = Return (Some (External ''no such image''))"
    by (simp add: Start_def world0_def NewClient_def)
  show ?thesis
    using Close_after_failed_Start [OF r, of ?w world0 ?d] s by simp
qed

lemma pipes_Read_loop:
  "rpcClient d = Some p \<Longrightarrow>
   read_loop cap k (p\<lparr>dockerPipes.stdErrBuf := stdErrBuf d\<rparr>) = (None, out, q) \<Longrightarrow>
   stdErrBuf (foldl pipes_Read d (replicate k (replicate cap 0))) = dockerPipes.stdErrBuf q
   \<and> map_option (\<lambda>p'. p'\<lparr>dockerPipes.stdErrBuf := dockerPipes.stdErrBuf q\<rparr>)
         (rpcClient (foldl pipes_Read d (replicate k (replicate cap 0)))) = Some q"
proof (induction k arbitrary: d p out)
  case 0
  then show ?case by auto
next
  case (Suc k)
  let ?q = "p\<lparr>dockerPipes.stdErrBuf := stdErrBuf d\<rparr>"
  obtain r b' q' where rd: "Read ?q (replicate cap 0) = (r, b', q')"
    by (metis prod.exhaust)
  obtain n where n: "r = Inr n"
    using Suc.prems(2) rd by (cases r) simp_all
  obtain out' where rest: "read_loop cap k q' = (None, out', q)"
    using Suc.prems(2) rd n by (auto split: prod.splits)
  let ?d' = "d\<lparr>stdErrBuf := dockerPipes.stdErrBuf q', rpcClient := Some q'\<rparr>"
  have step: "pipes_Read d (replicate cap 0) = ?d'"
    using Suc.prems(1) rd by (simp add: pipes_Read_def)
  have "stdErrBuf (foldl pipes_Read ?d' (replicate k (replicate cap 0)))
          = dockerPipes.stdErrBuf q
   \<and> map_option (\<lambda>p'. p'\<lparr>dockerPipes.stdErrBuf := dockerPipes.stdErrBuf q\<rparr>)
         (rpcClient (foldl pipes_Read ?d' (replicate k (replicate cap 0)))) = Some q"
    by (rule Suc.IH [of ?d' q' out']) (simp_all add: rest)
  then show ?case
    using step by simp
qed

text \<open>
  C4, as amended. Take an active client whose connection carries frames with tags 0, 1
  or 2 and payloads that are not empty and fit the length field, each arriving with
  its header as a raw read of its own and its payload available in full behind it, and
  a reader that uses buffers of \<open>cap\<close> bytes (\<open>0 < cap < 2 ^ 32\<close>). When the reads made
  during a \<open>Call\<close> (\<open>j\<close> of them) and after it has returned (\<open>k\<close> of them) have
  together consumed those frames, \<open>StdError\<close> is exactly the concatenation, in arrival
  order, of the payloads that the peer tagged as error, whatever the buffer held before
  the call, and the pipes are left with nothing pending in front of the rest of the
  stream. Right after a \<open>Call\<close> that made no read \<open>StdError\<close> is empty. \<open>StdError\<close>
  is a function of the client and changes nothing.
\<close>

theorem StdError_since_Call:
  assumes "rpcClient d = Some pipes"
    and "bytesRemaining pipes = 0" and "conn pipes = wire fs @ rest"
    and "list_all good_frame fs"
    and "0 < cap" and "cap < 2 ^ 32"
    and "j + k = reads_needed cap fs"
  shows "StdError (foldl pipes_Read
                     (snd (Call w d method (replicate j (replicate cap 0))))
                     (replicate k (replicate cap 0))) = errors fs
    \<and> map_option conn (rpcClient (foldl pipes_Read
                     (snd (Call w d method (replicate j (replicate cap 0))))
                     (replicate k (replicate cap 0)))) = Some rest
    \<and> map_option bytesRemaining (rpcClient (foldl pipes_Read
                     (snd (Call w d method (replicate j (replicate cap 0))))
                     (replicate k (replicate cap 0)))) = Some 0
    \<and> StdError (snd (Call w d method [])) = []
    \<and> fst (Call w d method bufs) = Return (rpc_Call_result w method)"
proof -
  let ?b = "replicate cap (0 :: byte)"
  let ?d1 = "d\<lparr>stdErrBuf := []\<rparr>"
  let ?q = "pipes\<lparr>dockerPipes.stdErrBuf := []\<rparr>"
  let ?end = "pipes\<lparr>conn := rest,
                      pipeName := (if fs = [] then pipeName pipes else fst (last fs)),
                      bytesRemaining := 0,
                      dockerPipes.stdErrBuf := errors fs\<rparr>"
  let ?D = "foldl pipes_Read (snd (Call w d method (replicate j ?b))) (replicate k ?b)"
  have loop: "read_loop cap (reads_needed cap fs) ?q = (None, outputs fs, ?end)"
    using wire_loop [OF assms(5,6,4), of ?q rest] assms(2,3) by simp
  have "replicate j ?b @ replicate k ?b = replicate (reads_needed cap fs) ?b"
    using assms(7) by (simp add: replicate_add [symmetric])
  then have run: "?D = foldl pipes_Read ?d1 (replicate (reads_needed cap fs) ?b)"
    using assms(1) by (simp add: Call_def foldl_append [symmetric] del: foldl_append)
  have r1: "rpcClient ?d1 = Some pipes" using assms(1) by simp
  have l1: "read_loop cap (reads_needed cap fs)
              (pipes\<lparr>dockerPipes.stdErrBuf := stdErrBuf ?d1\<rparr>) = (None, outputs fs, ?end)"
    using loop by simp
  note fin = pipes_Read_loop [OF r1 l1, folded run]
  have buf: "stdErrBuf ?D = errors fs"
    using fin by simp
  obtain p' where p': "rpcClient ?D = Some p'"
    and e: "p'\<lparr>dockerPipes.stdErrBuf := errors fs\<rparr> = ?end"
    using fin by (cases "rpcClient ?D") auto
  have "conn (p'\<lparr>dockerPipes.stdErrBuf := errors fs\<rparr>) = rest"
    and "bytesRemaining (p'\<lparr>dockerPipes.stdErrBuf := errors fs\<rparr>) = 0"
    unfolding e by simp_all
  then have "conn p' = rest" and "bytesRemaining p' = 0" by simp_all
  with buf p' show ?thesis
    using assms(1) by (simp add: StdError_def Call_def)
qed

theorem StdError_since_Call_witness:
  "StdError (snd (Call world0
       ((NewClient ''XXX-test'' ''docker-plugin:latest'' ''tcp://192.168.99.100:2376'')
          \<lparr>stdErrBuf := [115, 116, 97, 108, 101],
           rpcClient := Some \<lparr>conn = [([2, 0, 0, 0, 0, 0, 0, 5], None),
                                          ([111, 111, 112, 115, 33], None),
                                          ([1, 0, 0, 0, 0, 0, 0, 2], None),
                                          ([123, 125], None)],
                                  stdErrBuf = [], bytesRemaining = 0, pipeName = 0\<rparr>\<rparr>)
       ''Plugin.SayHi'' [replicate 8 0, replicate 8 0]))
   = [111, 111, 112, 115, 33]"
proof -
  let ?fs = "[(2, [111, 111, 112, 115, 33]), (1, [123, 125])] :: frame list"
  let ?pipes = "\<lparr>conn = [([2, 0, 0, 0, 0, 0, 0, 5], None),
                         ([111, 111, 112, 115, 33], None),
                         ([1, 0, 0, 0, 0, 0, 0, 2], None),
                         ([123, 125], None)],
                 stdErrBuf = [], bytesRemaining = 0, pipeName = 0 :: byte\<rparr>"
  let ?d = "(NewClient ''XXX-test'' ''docker-plugin:latest'' ''tcp://192.168.99.100:2376'')
          \<lparr>stdErrBuf := [115, 116, 97, 108, 101], rpcClient := Some ?pipes\<rparr>"
  have r: "rpcClient ?d = Some ?pipes" by simp
  have z: "bytesRemaining ?pipes = 0" by simp
  have c: "conn ?pipes = wire ?fs @ []"
    by (simp add: wire_def arrival_def frame_header_def)
  have g: "list_all good_frame ?fs"
    by (simp add: good_frame_def valid_frame_def STDIN_def STDOUT_def STDERR_def)
  have n: "2 + 0 = reads_needed 8 ?fs"
    by (simp add: reads_needed_def reads_for_def)
  have two: "replicate 2 (replicate 8 (0 :: byte)) = [replicate 8 0, replicate 8 0]"
    by (simp add: numeral_2_eq_2)
  have e: "errors ?fs = [111, 111, 112, 115, 33]"
    by (simp add: errors_def STDERR_def)
  have "StdError (foldl pipes_Read
          (snd (Call world0 ?d ''Plugin.SayHi'' (replicate 2 (replicate 8 0))))
          (replicate 0 (replicate 8 0))) = errors ?fs"
    using StdError_since_Call [OF r z c g _ _ n, of world0 "''Plugin.SayHi''" "[]"]
    by simp
  then show ?thesis
    by (simp only: two e replicate_0 foldl_Nil)
qed

text \<open>
  C4 as stated fails when an error frame does not arrive header first: an error frame
  with payload \<^verbatim>\<open>oops!\<close> whose 13 bytes are available together is taken whole by
  the header read and refused on the guard \<^verbatim>\<open>c != 8\<close>. Its payload never reaches the
  buffer: \<open>StdError\<close> stays empty and the connection has nothing left.
\<close>

theorem StdError_coalesced_counterexample:
  "valid_frame (STDERR, [111, 111, 112, 115, 33])
   \<and> concat (map fst (coalesced (STDERR, [111, 111, 112, 115, 33])))
       = encode (STDERR, [111, 111, 112, 115, 33])
   \<and> errors [(STDERR, [111, 111, 112, 115, 33])] = [111, 111, 112, 115, 33]
   \<and> StdError (snd (Call world0
       ((NewClient ''XXX-test'' ''docker-plugin:latest'' ''tcp://192.168.99.100:2376'')
          \<lparr>rpcClient := Some \<lparr>conn = coalesced (STDERR, [111, 111, 112, 115, 33]),
                                  stdErrBuf = [], bytesRemaining = 0, pipeName = 0\<rparr>\<rparr>)
       ''Plugin.SayHi'' [[0, 0, 0, 0, 0, 0, 0, 0], [0, 0, 0, 0, 0, 0, 0, 0]]))
     = []
   \<and> rpcClient (snd (Call world0
       ((NewClient ''XXX-test'' ''docker-plugin:latest'' ''tcp://192.168.99.100:2376'')
          \<lparr>rpcClient := Some \<lparr>conn = coalesced (STDERR, [111, 111, 112, 115, 33]),
                                  stdErrBuf = [], bytesRemaining = 0, pipeName = 0\<rparr>\<rparr>)
       ''Plugin.SayHi'' [[0, 0, 0, 0, 0, 0, 0, 0], [0, 0, 0, 0, 0, 0, 0, 0]]))
     = Some \<lparr>conn = [], stdErrBuf = [], bytesRemaining = 0, pipeName = 0\<rparr>"
  by (simp add: valid_frame_def coalesced_def encode_def errors_def frame_header_def
        STDERR_def StdError_def Call_def pipes_Read_def NewClient_def
        Read_def read_header_def conn_Read_def EOF_def)

end
